theory Spec2Isabelle
  imports Main "HOL-Library.AList" "HOL-Library.Word"
begin

section \<open>pyatv.conf: the configuration of a device and its services\<close>

text \<open>
  The module \<^verbatim>\<open>pyatv/conf.py\<close> defines the class \<^verbatim>\<open>AppleTV\<close> (a device with one
  service per protocol) and three constructors of services. Service objects are shared
  by reference: \<^verbatim>\<open>add_service\<close> stores the caller's object in the configuration,
  \<^verbatim>\<open>merge\<close> and \<^verbatim>\<open>set_credentials\<close> mutate a stored object in place. The model
  therefore keeps service objects in an explicit store, and a configuration holds
  references into it. A configuration itself is passed and returned by value.
\<close>

subsection \<open>Constants of pyatv.const\<close>

text \<open>
  Modelled from the spec: the enumerations \<^verbatim>\<open>Protocol\<close> and \<^verbatim>\<open>OperatingSystem\<close> of
  \<^verbatim>\<open>pyatv.const\<close>, which the module imports; the spec gives the tags MRP, DMAP, AirPlay and
  TvOS, Legacy, Unknown.
\<close>

datatype Protocol = DMAP | MRP | AirPlay

datatype OperatingSystem = Unknown | Legacy | TvOS

text \<open>The one exception the module raises (\<^verbatim>\<open>exceptions.NoServiceError\<close>).\<close>

datatype error = NoServiceError

subsection \<open>Service objects (pyatv.interface.BaseService)\<close>

text \<open>
  Modelled from the spec: the class \<^verbatim>\<open>BaseService\<close> of \<^verbatim>\<open>pyatv.interface\<close>. The spec
  gives a service record the attributes identifier (optional string), protocol, port,
  properties (a mapping from strings to strings) and credentials (optional string).
  The fields carry the prefix \<open>svc_\<close>, since \<open>identifier\<close> is also a property of the
  configuration. The property dictionary is held by value inside the object.
\<close>

record BaseService =
  svc_identifier :: "string option"
  svc_protocol :: Protocol
  svc_port :: int
  svc_credentials :: "string option"
  svc_properties :: "string \<rightharpoonup> string"

text \<open>
  Modelled from the spec: the constructor of \<^verbatim>\<open>BaseService\<close>, called by the three
  constructors below as \<^verbatim>\<open>super().__init__(identifier, protocol, port, properties)\<close>.
  The properties argument is optional and defaults to the empty mapping; credentials
  start absent.
\<close>

definition BaseService_init ::
  "string option \<Rightarrow> Protocol \<Rightarrow> int \<Rightarrow> (string \<rightharpoonup> string) option \<Rightarrow> BaseService" where
  "BaseService_init identifier protocol port properties =
     \<lparr>svc_identifier = identifier, svc_protocol = protocol, svc_port = port,
      svc_credentials = None,
      svc_properties = (case properties of None \<Rightarrow> Map.empty | Some m \<Rightarrow> m)\<rparr>"

text \<open>
  Modelled from the spec: \<^verbatim>\<open>BaseService.merge\<close>. The incoming record's properties are
  layered over the existing ones (new keys added, existing keys overwritten by the
  incoming values), and incoming non-empty credentials replace the existing
  credentials. The spec notes that the source has no guard on the two protocols.
\<close>

definition merge :: "BaseService \<Rightarrow> BaseService \<Rightarrow> BaseService" where
  "merge self other =
     self\<lparr>svc_credentials :=
            (case svc_credentials other of
               None \<Rightarrow> svc_credentials self
             | Some c \<Rightarrow> if c \<noteq> [] then Some c else svc_credentials self),
          svc_properties := svc_properties self ++ svc_properties other\<rparr>"

text \<open>
  Modelled from the spec: the truth value of a service object, tested by
  \<^verbatim>\<open>if service:\<close> in \<^verbatim>\<open>identifier\<close> and \<^verbatim>\<open>set_credentials\<close>. The spec gives a
  service record attributes and \<^verbatim>\<open>merge\<close> only, no boolean or length protocol, so an
  object is true in Python whatever its fields hold; only \<^verbatim>\<open>None\<close> is false.
\<close>

definition truthy :: "BaseService \<Rightarrow> bool" where
  "truthy service = True"

text \<open>
  \<^verbatim>\<open>DmapService(identifier, credentials, port=None, properties=None)\<close>: the port is
  \<^verbatim>\<open>port or 3689\<close>, so an absent port and the port 0 both give 3689. In the three
  constructors an optional argument is an option, \<open>None\<close> for the argument left out;
  the identifier is an option as well, since the spec's service record has an optional
  identifier and \<^verbatim>\<open>all_identifiers\<close> reckons with \<^verbatim>\<open>None\<close>.
\<close>

definition DmapService ::
  "string option \<Rightarrow> string option \<Rightarrow> int option \<Rightarrow> (string \<rightharpoonup> string) option \<Rightarrow> BaseService" where
  "DmapService identifier credentials port properties =
     (BaseService_init identifier DMAP
        (case port of None \<Rightarrow> 3689 | Some n \<Rightarrow> if n = 0 then 3689 else n) properties)
     \<lparr>svc_credentials := credentials\<rparr>"

text \<open>\<^verbatim>\<open>MrpService(identifier, port, credentials=None, properties=None)\<close>.\<close>

definition MrpService ::
  "string option \<Rightarrow> int \<Rightarrow> string option \<Rightarrow> (string \<rightharpoonup> string) option \<Rightarrow> BaseService" where
  "MrpService identifier port credentials properties =
     (BaseService_init identifier MRP port properties)\<lparr>svc_credentials := credentials\<rparr>"

text \<open>
  \<^verbatim>\<open>AirPlayService(identifier, port=7000, credentials=None, properties=None)\<close>: the
  port left out is 7000.
\<close>

definition AirPlayService ::
  "string option \<Rightarrow> int option \<Rightarrow> string option \<Rightarrow> (string \<rightharpoonup> string) option \<Rightarrow> BaseService" where
  "AirPlayService identifier port credentials properties =
     (BaseService_init identifier AirPlay (case port of None \<Rightarrow> 7000 | Some n \<Rightarrow> n) properties)
     \<lparr>svc_credentials := credentials\<rparr>"

subsection \<open>The store of service objects\<close>

text \<open>
  A reference names a service object; the store gives the object's current fields.
  Two references are the same Python object iff they are equal.
\<close>

type_synonym ref = nat

type_synonym store = "ref \<Rightarrow> BaseService"

subsection \<open>The configuration (class AppleTV)\<close>

text \<open>
  \<^verbatim>\<open>self._services\<close> is a Python dict from protocols to service objects. A dict keeps
  its keys in insertion order and \<^verbatim>\<open>_all_properties\<close> iterates in that order, so the
  dict is an association list from protocols to references: \<open>map_of\<close> is \<^verbatim>\<open>dict.get\<close>,
  \<open>AList.update\<close> is item assignment (a new key goes to the end, an old key keeps its
  place). The address is an \<^verbatim>\<open>IPv4Address\<close>, a 32-bit value.
\<close>

record AppleTV =
  address :: "32 word"
  name :: string
  p_services :: "(Protocol \<times> ref) list"

definition AppleTV_init :: "32 word \<Rightarrow> string \<Rightarrow> AppleTV" where
  "AppleTV_init addr nm = \<lparr>address = addr, name = nm, p_services = []\<rparr>"

text \<open>\<^verbatim>\<open>key in self._services\<close>.\<close>

definition has_key :: "Protocol \<Rightarrow> AppleTV \<Rightarrow> bool" where
  "has_key prot self = (map_of (p_services self) prot \<noteq> None)"

definition ready :: "AppleTV \<Rightarrow> bool" where
  "ready self =
     (let has_dmap = has_key DMAP self;
          has_mrp = has_key MRP self
      in has_dmap \<or> has_mrp)"

definition get_service :: "AppleTV \<Rightarrow> Protocol \<Rightarrow> ref option" where
  "get_service self protocol = map_of (p_services self) protocol"

definition services :: "AppleTV \<Rightarrow> ref list" where
  "services self = map snd (p_services self)"

text \<open>
  The loop of \<^verbatim>\<open>identifier\<close> over \<^verbatim>\<open>[Protocol.MRP, Protocol.DMAP, Protocol.AirPlay]\<close>:
  it returns the identifier of the first service that the dict holds and that is true,
  and \<^verbatim>\<open>None\<close> when the list is exhausted.
\<close>

fun identifier_loop :: "AppleTV \<Rightarrow> store \<Rightarrow> Protocol list \<Rightarrow> string option" where
  "identifier_loop self h [] = None"
| "identifier_loop self h (prot # prots) =
     (case map_of (p_services self) prot of
        None \<Rightarrow> identifier_loop self h prots
      | Some service \<Rightarrow>
          if truthy (h service) then svc_identifier (h service)
          else identifier_loop self h prots)"

definition "identifier" :: "AppleTV \<Rightarrow> store \<Rightarrow> string option" where
  "identifier self h = identifier_loop self h [MRP, DMAP, AirPlay]"

text \<open>
  \<^verbatim>\<open>all_identifiers\<close>: the identifiers of the services, in the order of the dict,
  without those that are \<^verbatim>\<open>None\<close>.
\<close>

definition all_identifiers :: "AppleTV \<Rightarrow> store \<Rightarrow> string list" where
  "all_identifiers self h =
     List.map_filter (\<lambda>x. svc_identifier (h x)) (services self)"

text \<open>
  \<^verbatim>\<open>add_service(service)\<close>: the key is the protocol of the object passed. An existing
  object is merged into, in the store; otherwise the reference is stored under the key.
\<close>

definition add_service :: "AppleTV \<Rightarrow> ref \<Rightarrow> store \<Rightarrow> AppleTV \<times> store" where
  "add_service self service h =
     (case map_of (p_services self) (svc_protocol (h service)) of
        Some existing \<Rightarrow> (self, h(existing := merge (h existing) (h service)))
      | None \<Rightarrow>
          (self\<lparr>p_services :=
                  AList.update (svc_protocol (h service)) service (p_services self)\<rparr>, h))"

text \<open>
  The loop of \<^verbatim>\<open>main_service\<close>: the first protocol of the list that the dict holds
  (\<^verbatim>\<open>is not None\<close>), and \<^verbatim>\<open>NoServiceError\<close> when the list is exhausted.
\<close>

fun main_service_loop :: "AppleTV \<Rightarrow> Protocol list \<Rightarrow> error + ref" where
  "main_service_loop self [] = Inl NoServiceError"
| "main_service_loop self (prot # prots) =
     (case map_of (p_services self) prot of
        Some service \<Rightarrow> Inr service
      | None \<Rightarrow> main_service_loop self prots)"

definition main_service :: "AppleTV \<Rightarrow> Protocol option \<Rightarrow> error + ref" where
  "main_service self protocol =
     (let protocols = (case protocol of Some p \<Rightarrow> [p] | None \<Rightarrow> [MRP, DMAP])
      in main_service_loop self protocols)"

text \<open>
  \<^verbatim>\<open>set_credentials(protocol, credentials)\<close> returns the boolean, and the
  configuration and the store as they are afterwards.
\<close>

definition set_credentials ::
  "AppleTV \<Rightarrow> Protocol \<Rightarrow> string \<Rightarrow> store \<Rightarrow> bool \<times> AppleTV \<times> store" where
  "set_credentials self protocol credentials h =
     (case get_service self protocol of
        None \<Rightarrow> (False, self, h)
      | Some service \<Rightarrow>
          if truthy (h service)
          then (True, self, h(service := (h service)\<lparr>svc_credentials := Some credentials\<rparr>))
          else (False, self, h))"

subsection \<open>Device information\<close>

text \<open>
  Modelled from the spec: the value object \<^verbatim>\<open>DeviceInfo\<close> of \<^verbatim>\<open>pyatv.interface\<close>,
  built as \<^verbatim>\<open>DeviceInfo(os_type, version, build, model, mac)\<close>.
\<close>

record DeviceInfo =
  os_type :: OperatingSystem
  version :: "string option"
  build :: "string option"
  model :: "string option"
  mac :: "string option"

text \<open>
  \<^verbatim>\<open>str.upper\<close>, a method of Python's string type. On text that is ASCII throughout
  (\<^verbatim>\<open>str.isascii\<close>) it maps the letters a to z to A to Z, character by character, and
  leaves every other character as it is. On any other text its result is read from the
  Unicode case tables of the interpreter (one character may become another or several),
  which are no part of the module: there the result is that of the parameter
  \<open>unicode_upper\<close>, about which nothing is assumed.
\<close>

definition to_upper :: "char \<Rightarrow> char" where
  "to_upper c =
     (if 97 \<le> (of_char c :: nat) \<and> (of_char c :: nat) \<le> 122
      then char_of ((of_char c :: nat) - 32) else c)"

definition isascii :: "string \<Rightarrow> bool" where
  "isascii s = list_all (\<lambda>c. (of_char c :: nat) < 128) s"

definition upper :: "(string \<Rightarrow> string) \<Rightarrow> string \<Rightarrow> string" where
  "upper unicode_upper s = (if isascii s then map to_upper s else unicode_upper s)"

text \<open>
  \<^verbatim>\<open>_all_properties\<close>: starting from the empty dict, \<^verbatim>\<open>properties.update\<close> with the
  properties of each service in the order of the dict.
\<close>

definition all_properties :: "AppleTV \<Rightarrow> store \<Rightarrow> (string \<rightharpoonup> string)" where
  "all_properties self h =
     foldl (\<lambda>properties service. properties ++ svc_properties (h service))
       Map.empty (services self)"

text \<open>
  \<^verbatim>\<open>device_info\<close>. The functions \<^verbatim>\<open>lookup_version\<close> and \<^verbatim>\<open>lookup_model\<close> of
  \<^verbatim>\<open>pyatv.support.device_info\<close> are parameters, and so are the interpreter's case
  tables. \<^verbatim>\<open>properties.get(k, d)\<close> is the value under the key when the key is there and
  \<^verbatim>\<open>d\<close> otherwise; \<^verbatim>\<open>if mac:\<close> is false for \<^verbatim>\<open>None\<close> and for the empty string.
\<close>

definition device_info ::
  "(string \<Rightarrow> string) \<Rightarrow>
   (string option \<Rightarrow> string option) \<Rightarrow> (string option \<Rightarrow> string option) \<Rightarrow>
   AppleTV \<Rightarrow> store \<Rightarrow> DeviceInfo" where
  "device_info unicode_upper lookup_version lookup_model self h =
     (let properties = all_properties self h;
          os = (if has_key MRP self then TvOS
                else if has_key DMAP self then Legacy
                else Unknown);
          bld = properties ''SystemBuildVersion'';
          mdl = properties ''model'';
          vers = (case properties ''osvers'' of
                    Some v \<Rightarrow> Some v
                  | None \<Rightarrow> lookup_version bld);
          m = (case properties ''macAddress'' of
                 Some v \<Rightarrow> Some v
               | None \<Rightarrow> properties ''deviceid'');
          m' = (case m of
                  None \<Rightarrow> None
                | Some s \<Rightarrow> if s \<noteq> [] then Some (upper unicode_upper s) else Some s)
      in \<lparr>os_type = os, version = vers, build = bld, model = lookup_model mdl, mac = m'\<rparr>)"

subsection \<open>Equality\<close>

text \<open>
  The other operand of \<^verbatim>\<open>__eq__\<close> is any Python object: a configuration, or
  something that is not an instance of the class.
\<close>

datatype py_object = AppleTVObj AppleTV | OtherObj

definition AppleTV_eq :: "AppleTV \<Rightarrow> py_object \<Rightarrow> store \<Rightarrow> bool" where
  "AppleTV_eq self other h =
     (case other of
        AppleTVObj other_conf \<Rightarrow> identifier self h = identifier other_conf h
      | OtherObj \<Rightarrow> False)"

subsection \<open>Well-formed configurations\<close>

text \<open>
  A dict has each key once, and \<^verbatim>\<open>add_service\<close> files an object under its own
  protocol, which nothing in the module changes afterwards.
\<close>

definition wf_conf :: "AppleTV \<Rightarrow> store \<Rightarrow> bool" where
  "wf_conf self h =
     (distinct (map fst (p_services self)) \<and>
      list_all (\<lambda>(prot, service). svc_protocol (h service) = prot) (p_services self))"

text \<open>
  The keys of the dict: the protocols for which a service is registered.
\<close>

definition keys :: "AppleTV \<Rightarrow> Protocol set" where
  "keys self = set (map fst (p_services self))"

subsection \<open>Example objects and configurations\<close>

text \<open>
  A store with a few service objects built by the three constructors, and
  configurations built from an empty one by \<^verbatim>\<open>add_service\<close>. The object 10 is the MRP
  record and 11 the DMAP record of the spec's example; 13 is an MRP record without an
  identifier; 14 is a second MRP record, to be merged into 10; 12 and 16 both have
  the property \<^verbatim>\<open>macAddress\<close>, and 15 has \<^verbatim>\<open>deviceid\<close>.
\<close>

definition ex_store :: store where
  "ex_store =
     (\<lambda>_. AirPlayService None None None None)
     (10 := MrpService (Some ''ABC'') 49152 None (Some [''SystemBuildVersion'' \<mapsto> ''18J386'']),
      11 := DmapService (Some ''XYZ'') None None None,
      12 := AirPlayService (Some ''DEF'') None None (Some [''macAddress'' \<mapsto> ''aa:bb:cc'']),
      13 := MrpService None 49152 None None,
      14 := MrpService (Some ''ABC'') 49153 (Some ''secret'')
             (Some [''SystemBuildVersion'' \<mapsto> ''18K5'', ''model'' \<mapsto> ''J305AP'']),
      15 := AirPlayService (Some ''GHI'') (Some 7001) None (Some [''deviceid'' \<mapsto> ''a1:b2:c3'']),
      16 := DmapService (Some ''XYZ'') None None (Some [''macAddress'' \<mapsto> ''0f:1e:2d'']))"

definition ex_empty :: AppleTV where
  "ex_empty = AppleTV_init 0x0A000001 ''Living Room''"

definition ex_mrp :: AppleTV where
  "ex_mrp = fst (add_service ex_empty 10 ex_store)"

definition ex_both :: AppleTV where
  "ex_both = fst (add_service ex_mrp 11 ex_store)"

definition ex_dmap_only :: AppleTV where
  "ex_dmap_only = fst (add_service ex_empty 11 ex_store)"

definition ex_airplay_only :: AppleTV where
  "ex_airplay_only = fst (add_service ex_empty 12 ex_store)"

definition ex_null_mrp :: AppleTV where
  "ex_null_mrp = fst (add_service (fst (add_service ex_empty 13 ex_store)) 11 ex_store)"

definition ex_deviceid :: AppleTV where
  "ex_deviceid = fst (add_service ex_empty 15 ex_store)"

definition ex_dmap_airplay :: AppleTV where
  "ex_dmap_airplay = fst (add_service (fst (add_service ex_empty 11 ex_store)) 12 ex_store)"

definition ex_two_macs :: AppleTV where
  "ex_two_macs = fst (add_service (fst (add_service ex_empty 16 ex_store)) 12 ex_store)"

definition ex_mac_deviceid :: AppleTV where
  "ex_mac_deviceid = fst (add_service (fst (add_service ex_empty 16 ex_store)) 15 ex_store)"

definition ex_merged :: "AppleTV \<times> store" where
  "ex_merged = add_service ex_mrp 14 ex_store"

definition ex_other :: AppleTV where
  "ex_other = AppleTV_init 0x0A000002 ''Bedroom''"

text \<open>
  Two small tables standing for \<^verbatim>\<open>lookup_version\<close> and \<^verbatim>\<open>lookup_model\<close> in the
  examples; both give \<^verbatim>\<open>None\<close> for \<^verbatim>\<open>None\<close> and for a string they do not know.
\<close>

definition ex_lookup_version :: "string option \<Rightarrow> string option" where
  "ex_lookup_version bld =
     (case bld of
        None \<Rightarrow> None
      | Some b \<Rightarrow> if b = ''18J386'' then Some ''14.7'' else None)"

definition ex_lookup_model :: "string option \<Rightarrow> string option" where
  "ex_lookup_model mdl =
     (case mdl of
        None \<Rightarrow> None
      | Some m \<Rightarrow> if m = ''J305AP'' then Some ''Apple TV 4K'' else None)"

text \<open>
  The examples hold ASCII text only, so the case tables are never consulted in them;
  the function that stands for the tables there changes nothing.
\<close>

definition ex_unicode_upper :: "string \<Rightarrow> string" where
  "ex_unicode_upper s = s"

text \<open>The letters of \<^verbatim>\<open>string.ascii_lowercase\<close> and \<^verbatim>\<open>string.ascii_uppercase\<close>.\<close>

definition ascii_lowercase :: string where
  "ascii_lowercase = ''abcdefghijklmnopqrstuvwxyz''"

definition ascii_uppercase :: string where
  "ascii_uppercase = ''ABCDEFGHIJKLMNOPQRSTUVWXYZ''"

section \<open>Basic facts\<close>

subsection \<open>Lookup and the keys of the dict\<close>

lemma has_key_get_service: "has_key prot self \<longleftrightarrow> get_service self prot \<noteq> None"
  by (simp add: has_key_def get_service_def)

lemma get_service_keys: "get_service self prot \<noteq> None \<longleftrightarrow> prot \<in> keys self"
  by (simp add: get_service_def keys_def map_of_eq_None_iff)

lemma keys_init: "keys (AppleTV_init addr nm) = {}"
  by (simp add: keys_def AppleTV_init_def)

lemma update_absent:
  "map_of al k = None \<Longrightarrow> AList.update k v al = al @ [(k, v)]"
  by (induction al) (auto split: if_splits)

subsection \<open>Merging and registering\<close>

lemma svc_protocol_merge: "svc_protocol (merge x y) = svc_protocol x"
  by (simp add: merge_def)

lemma svc_properties_merge: "svc_properties (merge x y) = svc_properties x ++ svc_properties y"
  by (simp add: merge_def)

lemma add_service_existing:
  "map_of (p_services self) (svc_protocol (h service)) = Some existing \<Longrightarrow>
   add_service self service h = (self, h(existing := merge (h existing) (h service)))"
  by (simp add: add_service_def)

lemma add_service_new:
  "map_of (p_services self) (svc_protocol (h service)) = None \<Longrightarrow>
   add_service self service h =
     (self\<lparr>p_services := p_services self @ [(svc_protocol (h service), service)]\<rparr>, h)"
  by (simp add: add_service_def update_absent)

lemma add_service_registers:
  assumes a: "add_service self service h = (self', h')"
  shows "get_service self' (svc_protocol (h service)) =
           (case get_service self (svc_protocol (h service)) of
              Some existing \<Rightarrow> Some existing
            | None \<Rightarrow> Some service)"
proof (cases "map_of (p_services self) (svc_protocol (h service))")
  case None
  with a show ?thesis
    by (auto simp: add_service_new get_service_def map_add_Some_iff)
next
  case (Some existing)
  with a show ?thesis
    by (auto simp: add_service_existing get_service_def)
qed

lemma add_service_store:
  assumes a: "add_service self service h = (self', h')"
  shows "h' =
           (case get_service self (svc_protocol (h service)) of
              Some existing \<Rightarrow> h(existing := merge (h existing) (h service))
            | None \<Rightarrow> h)"
proof (cases "map_of (p_services self) (svc_protocol (h service))")
  case None
  with a show ?thesis
    by (auto simp: add_service_new get_service_def)
next
  case (Some existing)
  with a show ?thesis
    by (auto simp: add_service_existing get_service_def)
qed

lemma add_service_protocol:
  assumes a: "add_service self service h = (self', h')"
  shows "svc_protocol (h' x) = svc_protocol (h x)"
  by (simp add: add_service_store [OF a] svc_protocol_merge split: option.splits)

subsection \<open>Setting credentials\<close>

lemma set_credentials_Some:
  "get_service self protocol = Some service \<Longrightarrow>
   set_credentials self protocol credentials h =
     (True, self, h(service := (h service)\<lparr>svc_credentials := Some credentials\<rparr>))"
  by (simp add: set_credentials_def truthy_def)

lemma set_credentials_None:
  "get_service self protocol = None \<Longrightarrow>
   set_credentials self protocol credentials h = (False, self, h)"
  by (simp add: set_credentials_def)

subsection \<open>The invariant\<close>

text \<open>
  The empty configuration is well formed, and \<^verbatim>\<open>add_service\<close> and
  \<^verbatim>\<open>set_credentials\<close> keep a configuration well formed: every configuration that is
  built through the class's methods is well formed. A merge into an object that another
  configuration shares does no harm either, since it keeps every object's protocol. In a
  well-formed configuration the services under two protocols are two objects, and there
  is one record per protocol.
\<close>

lemma wf_init: "wf_conf (AppleTV_init addr nm) h"
  by (simp add: wf_conf_def AppleTV_init_def)

lemma wf_store_update:
  assumes "wf_conf self h" and "svc_protocol x = svc_protocol (h r)"
  shows "wf_conf self (h(r := x))"
  using assms by (auto simp: wf_conf_def list_all_iff)

lemma wf_add_service:
  assumes w: "wf_conf self h" and a: "add_service self service h = (self', h')"
  shows "wf_conf self' h'"
proof (cases "map_of (p_services self) (svc_protocol (h service))")
  case None
  from a None
  have s: "self' = self\<lparr>p_services := p_services self @ [(svc_protocol (h service), service)]\<rparr>"
    and h: "h' = h"
    by (auto simp: add_service_new)
  from None have "svc_protocol (h service) \<notin> fst ` set (p_services self)"
    by (simp add: map_of_eq_None_iff)
  with w show ?thesis
    by (simp add: s h wf_conf_def)
next
  case (Some existing)
  from a Some
  have s: "self' = self" and h: "h' = h(existing := merge (h existing) (h service))"
    by (auto simp: add_service_existing)
  show ?thesis
    unfolding s h by (rule wf_store_update [OF w]) (simp add: svc_protocol_merge)
qed

lemma wf_set_credentials:
  assumes w: "wf_conf self h" and a: "set_credentials self protocol credentials h = (b, self', h')"
  shows "wf_conf self' h'"
proof (cases "get_service self protocol")
  case None
  with a w show ?thesis by (simp add: set_credentials_None)
next
  case (Some service)
  from a Some
  have s: "self' = self"
    and h: "h' = h(service := (h service)\<lparr>svc_credentials := Some credentials\<rparr>)"
    by (auto simp: set_credentials_Some)
  show ?thesis
    unfolding s h by (rule wf_store_update [OF w]) simp
qed

lemma wf_same_protocols:
  assumes "wf_conf self h" and "\<And>x. svc_protocol (h' x) = svc_protocol (h x)"
  shows "wf_conf self h'"
  using assms by (simp add: wf_conf_def)

lemma wf_add_service_elsewhere:
  assumes "wf_conf self h" and "add_service other service h = (other', h')"
  shows "wf_conf self h'"
  using assms(1) by (rule wf_same_protocols) (rule add_service_protocol [OF assms(2)])

lemma wf_get_service:
  "wf_conf self h \<Longrightarrow> get_service self p = Some s \<Longrightarrow> svc_protocol (h s) = p"
  by (auto simp: wf_conf_def get_service_def list_all_iff dest!: map_of_SomeD)

lemma wf_distinct_refs:
  assumes w: "wf_conf self h" and p: "get_service self p = Some s" and q: "get_service self q = Some t"
    and n: "q \<noteq> p"
  shows "t \<noteq> s"
  using wf_get_service [OF w p] wf_get_service [OF w q] n by auto

lemma count_key:
  "distinct (map fst xs) \<Longrightarrow> map_of xs k = Some v \<Longrightarrow>
   filter (\<lambda>(p, s). p = k) xs = [(k, v)]"
proof (induction xs)
  case Nil
  then show ?case by simp
next
  case (Cons x xs)
  obtain p s where x: "x = (p, s)" by (cases x)
  show ?case
  proof (cases "p = k")
    case True
    with Cons.prems x have v: "s = v" and "k \<notin> fst ` set xs" by auto
    then have "\<forall>y\<in>set xs. fst y \<noteq> k" by auto
    then have "filter (\<lambda>(p, s). p = k) xs = []"
      by (auto simp: filter_empty_conv)
    with True x v show ?thesis by simp
  next
    case False
    with Cons x show ?thesis by simp
  qed
qed

lemma filter_protocol:
  "list_all (\<lambda>(p, s). svc_protocol (h s) = p) xs \<Longrightarrow>
   filter (\<lambda>s. svc_protocol (h s) = k) (map snd xs) = map snd (filter (\<lambda>(p, s). p = k) xs)"
  by (induction xs) auto

lemma one_record:
  assumes w: "wf_conf self h" and g: "get_service self k = Some v"
  shows "filter (\<lambda>(p, s). p = k) (p_services self) = [(k, v)]"
    and "filter (\<lambda>s. svc_protocol (h s) = k) (services self) = [v]"
proof -
  from w g show a: "filter (\<lambda>(p, s). p = k) (p_services self) = [(k, v)]"
    by (simp add: wf_conf_def get_service_def count_key)
  from w show "filter (\<lambda>s. svc_protocol (h s) = k) (services self) = [v]"
    by (simp add: wf_conf_def services_def filter_protocol a)
qed

subsection \<open>The loops, unfolded\<close>

lemma main_service_None:
  "main_service self None =
     (case get_service self MRP of
        Some s \<Rightarrow> Inr s
      | None \<Rightarrow> (case get_service self DMAP of Some s \<Rightarrow> Inr s | None \<Rightarrow> Inl NoServiceError))"
  by (simp add: main_service_def get_service_def split: option.splits)

lemma main_service_Some:
  "main_service self (Some p) =
     (case get_service self p of Some s \<Rightarrow> Inr s | None \<Rightarrow> Inl NoServiceError)"
  by (simp add: main_service_def get_service_def split: option.splits)

lemma identifier_unfold:
  "identifier self h =
     (case get_service self MRP of
        Some s \<Rightarrow> svc_identifier (h s)
      | None \<Rightarrow>
          (case get_service self DMAP of
             Some s \<Rightarrow> svc_identifier (h s)
           | None \<Rightarrow>
               (case get_service self AirPlay of
                  Some s \<Rightarrow> svc_identifier (h s)
                | None \<Rightarrow> None)))"
  by (simp add: identifier_def get_service_def truthy_def split: option.splits)

subsection \<open>Device information\<close>

lemma os_type_device_info:
  "os_type (device_info uu lv lm self h) =
     (if has_key MRP self then TvOS else if has_key DMAP self then Legacy else Unknown)"
  by (simp add: device_info_def Let_def)

lemma upper_Nil: "upper uu [] = []"
  by (simp add: upper_def isascii_def)

lemma upper_ascii:
  "\<forall>c\<in>set v. (of_char c :: nat) < 128 \<Longrightarrow> upper uu v = map to_upper v"
  by (simp add: upper_def isascii_def list_all_iff)

lemma upper_example: "upper uu ''aa:bb:cc'' = ''AA:BB:CC''"
proof -
  have "\<forall>c\<in>set ''aa:bb:cc''. (of_char c :: nat) < 128"
    by simp
  then have "upper uu ''aa:bb:cc'' = map to_upper ''aa:bb:cc''"
    by (rule upper_ascii)
  also have "map to_upper ''aa:bb:cc'' = ''AA:BB:CC''"
    by code_simp
  finally show ?thesis .
qed

lemma to_upper_alphabet: "map to_upper ascii_lowercase = ascii_uppercase"
  by code_simp

lemma to_upper_letter:
  assumes "n < 26"
  shows "to_upper (ascii_lowercase ! n) = ascii_uppercase ! n"
proof -
  from assms have "n < length ascii_lowercase"
    by (simp add: ascii_lowercase_def)
  then have "map to_upper ascii_lowercase ! n = to_upper (ascii_lowercase ! n)"
    by (rule nth_map)
  then show ?thesis
    by (simp add: to_upper_alphabet)
qed

lemma lowercase_codes: "list_all (\<lambda>n. char_of n \<in> set ascii_lowercase) [97..<123]"
  by code_simp

lemma to_upper_other:
  assumes "c \<notin> set ascii_lowercase"
  shows "to_upper c = c"
proof (rule ccontr)
  assume "to_upper c \<noteq> c"
  then have "97 \<le> (of_char c :: nat)" and "(of_char c :: nat) \<le> 122"
    by (auto simp: to_upper_def split: if_splits)
  then have "97 \<le> (of_char c :: nat) \<and> (of_char c :: nat) < 123"
    by arith
  then have "(of_char c :: nat) \<in> {97..<123}"
    by (simp only: atLeastLessThan_iff)
  then have "(of_char c :: nat) \<in> set [97..<123]"
    by (simp only: set_upt)
  with lowercase_codes have "char_of (of_char c :: nat) \<in> set ascii_lowercase"
    unfolding list_all_iff by blast
  with assms show False
    by simp
qed

lemma mac_device_info:
  "mac (device_info uu lv lm self h) =
     map_option (upper uu)
       (case all_properties self h ''macAddress'' of
          Some v \<Rightarrow> Some v
        | None \<Rightarrow> all_properties self h ''deviceid'')"
  by (simp add: device_info_def Let_def upper_Nil split: option.splits)

lemma combined_Some_iff:
  "foldl (\<lambda>p x. p ++ f x) Map.empty xs k = Some v \<longleftrightarrow>
     (\<exists>ys s zs. xs = ys @ s # zs \<and> f s k = Some v \<and> (\<forall>t\<in>set zs. f t k = None))"
proof (induction xs rule: rev_induct)
  case Nil
  then show ?case by simp
next
  case (snoc x xs)
  let ?F = "foldl (\<lambda>p x. p ++ f x) Map.empty"
  have "?F (xs @ [x]) = ?F xs ++ f x"
    by simp
  then have step: "?F (xs @ [x]) k = (case f x k of Some w \<Rightarrow> Some w | None \<Rightarrow> ?F xs k)"
    by (simp only: map_add_def)
  show ?case
  proof
    assume l: "?F (xs @ [x]) k = Some v"
    show "\<exists>ys s zs. xs @ [x] = ys @ s # zs \<and> f s k = Some v \<and> (\<forall>t\<in>set zs. f t k = None)"
    proof (cases "f x k")
      case None
      with l step have "?F xs k = Some v" by simp
      with snoc.IH obtain ys s zs
        where "xs = ys @ s # zs" "f s k = Some v" "\<forall>t\<in>set zs. f t k = None"
        by auto
      with None have "xs @ [x] = ys @ s # (zs @ [x]) \<and> f s k = Some v \<and>
          (\<forall>t\<in>set (zs @ [x]). f t k = None)"
        by simp
      then show ?thesis by blast
    next
      case (Some w)
      with l step have "f x k = Some v" by simp
      then have "xs @ [x] = xs @ x # [] \<and> f x k = Some v \<and> (\<forall>t\<in>set []. f t k = None)"
        by simp
      then show ?thesis by blast
    qed
  next
    assume "\<exists>ys s zs. xs @ [x] = ys @ s # zs \<and> f s k = Some v \<and> (\<forall>t\<in>set zs. f t k = None)"
    then obtain ys s zs
      where e: "xs @ [x] = ys @ s # zs" and v: "f s k = Some v" and n: "\<forall>t\<in>set zs. f t k = None"
      by auto
    show "?F (xs @ [x]) k = Some v"
    proof (cases zs rule: rev_cases)
      case Nil
      with e have "x = s" by simp
      with v step show ?thesis by simp
    next
      case (snoc zs' z)
      with e have xs: "xs = ys @ s # zs'" and z: "z = x" by simp_all
      from n snoc z have nx: "f x k = None" and n': "\<forall>t\<in>set zs'. f t k = None" by simp_all
      from xs v n' have "\<exists>ys s zs. xs = ys @ s # zs \<and> f s k = Some v \<and> (\<forall>t\<in>set zs. f t k = None)"
        by blast
      with snoc.IH have "?F xs k = Some v" by simp
      with nx step show ?thesis by simp
    qed
  qed
qed

lemma combined_None_iff:
  "foldl (\<lambda>p x. p ++ f x) Map.empty xs k = None \<longleftrightarrow> (\<forall>s\<in>set xs. f s k = None)"
  by (induction xs rule: rev_induct) auto

lemma all_properties_Some_iff:
  "all_properties self h k = Some v \<longleftrightarrow>
     (\<exists>ys s zs. services self = ys @ s # zs \<and> svc_properties (h s) k = Some v \<and>
                (\<forall>t\<in>set zs. svc_properties (h t) k = None))"
  unfolding all_properties_def by (rule combined_Some_iff)

lemma all_properties_None_iff:
  "all_properties self h k = None \<longleftrightarrow>
     (\<forall>s\<in>set (services self). svc_properties (h s) k = None)"
  unfolding all_properties_def by (rule combined_None_iff)

lemma all_properties_no_service: "keys self = {} \<Longrightarrow> all_properties self h = Map.empty"
  by (simp add: all_properties_def services_def keys_def)

lemma has_key_no_service: "keys self = {} \<Longrightarrow> \<not> has_key prot self"
  by (simp add: has_key_def keys_def)

subsection \<open>The examples, evaluated\<close>

lemma ex_store_at:
  "ex_store 10 = MrpService (Some ''ABC'') 49152 None (Some [''SystemBuildVersion'' \<mapsto> ''18J386''])"
  "ex_store 11 = DmapService (Some ''XYZ'') None None None"
  "ex_store 12 = AirPlayService (Some ''DEF'') None None (Some [''macAddress'' \<mapsto> ''aa:bb:cc''])"
  "ex_store 13 = MrpService None 49152 None None"
  "ex_store 14 = MrpService (Some ''ABC'') 49153 (Some ''secret'')
             (Some [''SystemBuildVersion'' \<mapsto> ''18K5'', ''model'' \<mapsto> ''J305AP''])"
  "ex_store 15 = AirPlayService (Some ''GHI'') (Some 7001) None (Some [''deviceid'' \<mapsto> ''a1:b2:c3''])"
  "ex_store 16 = DmapService (Some ''XYZ'') None None (Some [''macAddress'' \<mapsto> ''0f:1e:2d''])"
  by (simp_all add: ex_store_def)

lemma ex_protocols:
  "svc_protocol (ex_store 10) = MRP" "svc_protocol (ex_store 11) = DMAP"
  "svc_protocol (ex_store 12) = AirPlay" "svc_protocol (ex_store 13) = MRP"
  "svc_protocol (ex_store 14) = MRP" "svc_protocol (ex_store 15) = AirPlay"
  "svc_protocol (ex_store 16) = DMAP"
  by (simp_all add: ex_store_at MrpService_def DmapService_def AirPlayService_def
      BaseService_init_def)

lemma ex_identifiers:
  "svc_identifier (ex_store 10) = Some ''ABC''" "svc_identifier (ex_store 11) = Some ''XYZ''"
  "svc_identifier (ex_store 12) = Some ''DEF''" "svc_identifier (ex_store 13) = None"
  by (simp_all add: ex_store_at MrpService_def DmapService_def AirPlayService_def
      BaseService_init_def)

lemma ex_services:
  "p_services ex_empty = []"
  "p_services ex_mrp = [(MRP, 10)]"
  "p_services ex_both = [(MRP, 10), (DMAP, 11)]"
  "p_services ex_dmap_only = [(DMAP, 11)]"
  "p_services ex_airplay_only = [(AirPlay, 12)]"
  "p_services ex_null_mrp = [(MRP, 13), (DMAP, 11)]"
  "p_services ex_deviceid = [(AirPlay, 15)]"
  "p_services ex_other = []"
  "p_services ex_dmap_airplay = [(DMAP, 11), (AirPlay, 12)]"
  "p_services ex_two_macs = [(DMAP, 16), (AirPlay, 12)]"
  "p_services ex_mac_deviceid = [(DMAP, 16), (AirPlay, 15)]"
  by (simp_all add: ex_empty_def ex_mrp_def ex_both_def ex_dmap_only_def ex_airplay_only_def
      ex_null_mrp_def ex_deviceid_def ex_other_def ex_dmap_airplay_def ex_two_macs_def
      ex_mac_deviceid_def AppleTV_init_def add_service_def ex_protocols)

lemma ex_properties:
  "svc_properties (ex_store 10) = [''SystemBuildVersion'' \<mapsto> ''18J386'']"
  "svc_properties (ex_store 11) = Map.empty"
  "svc_properties (ex_store 12) = [''macAddress'' \<mapsto> ''aa:bb:cc'']"
  "svc_properties (ex_store 14) = [''SystemBuildVersion'' \<mapsto> ''18K5'', ''model'' \<mapsto> ''J305AP'']"
  "svc_properties (ex_store 15) = [''deviceid'' \<mapsto> ''a1:b2:c3'']"
  "svc_properties (ex_store 16) = [''macAddress'' \<mapsto> ''0f:1e:2d'']"
  by (simp_all add: ex_store_at MrpService_def DmapService_def AirPlayService_def
      BaseService_init_def)

lemma ex_wf:
  "wf_conf ex_empty ex_store" "wf_conf ex_mrp ex_store" "wf_conf ex_both ex_store"
  "wf_conf ex_dmap_only ex_store" "wf_conf ex_airplay_only ex_store"
  "wf_conf ex_null_mrp ex_store"
  by (simp_all add: wf_conf_def ex_services ex_protocols)

lemma ex_add_mrp: "add_service ex_empty 10 ex_store = (ex_mrp, ex_store)"
  by (simp add: ex_mrp_def add_service_def ex_protocols ex_services)

lemma ex_merged_eq:
  "ex_merged = (ex_mrp, ex_store(10 := merge (ex_store 10) (ex_store 14)))"
  by (simp add: ex_merged_def add_service_def ex_protocols ex_services)

lemma ex_service_lists:
  "services ex_two_macs = [16] @ 12 # []"
  "services ex_dmap_airplay = [11] @ 12 # []"
  "services ex_mac_deviceid = [] @ 16 # [15]"
  "services ex_deviceid = [] @ 15 # []"
  "services ex_both = [10, 11]"
  by (simp_all add: services_def ex_services)

lemma ex_upper:
  "upper uu ''0f:1e:2d'' = ''0F:1E:2D''"
  "upper uu ''a1:b2:c3'' = ''A1:B2:C3''"
proof -
  have "\<forall>c\<in>set ''0f:1e:2d''. (of_char c :: nat) < 128"
    and "\<forall>c\<in>set ''a1:b2:c3''. (of_char c :: nat) < 128"
    by simp_all
  then have "upper uu ''0f:1e:2d'' = map to_upper ''0f:1e:2d''"
    and "upper uu ''a1:b2:c3'' = map to_upper ''a1:b2:c3''"
    by (simp_all only: upper_ascii)
  moreover have "map to_upper ''0f:1e:2d'' = ''0F:1E:2D''"
    and "map to_upper ''a1:b2:c3'' = ''A1:B2:C3''"
    by code_simp+
  ultimately show "upper uu ''0f:1e:2d'' = ''0F:1E:2D''"
    and "upper uu ''a1:b2:c3'' = ''A1:B2:C3''"
    by simp_all
qed

lemma ex_other_differs: "ex_other \<noteq> ex_empty"
  by (simp add: ex_other_def ex_empty_def AppleTV_init_def)

section \<open>The claims\<close>

subsection \<open>C1: the identifier of a configuration\<close>




subsection \<open>C2: equality of configurations\<close>

text \<open>
  C2, as the code has it. A configuration equals another configuration iff their
  resolved identifiers are equal, where \<^verbatim>\<open>None == None\<close> holds as for any other
  value: two configurations whose identifiers are both absent compare equal. Address
  and name play no role, and the services only through the resolved identifier; an
  object that is not a configuration is never equal.
\<close>

theorem AppleTV_eq_identifier:
  "(AppleTV_eq self (AppleTVObj other) h \<longleftrightarrow> identifier self h = identifier other h) \<and>
   (identifier self h = None \<and> identifier other h = None \<longrightarrow>
      AppleTV_eq self (AppleTVObj other) h) \<and>
   (p_services other = p_services self \<longrightarrow> AppleTV_eq self (AppleTVObj other) h) \<and>
   \<not> AppleTV_eq self OtherObj h"
proof -
  have "identifier other h = identifier self h" if "p_services other = p_services self"
  proof -
    from that have "get_service other = get_service self"
      by (simp add: get_service_def fun_eq_iff)
    then show ?thesis
      by (simp add: identifier_unfold split: option.splits)
  qed
  then show ?thesis
    by (simp add: AppleTV_eq_def)
qed

theorem AppleTV_eq_identifier_witness:
  "identifier ex_empty ex_store = None \<and> identifier ex_other ex_store = None \<and>
   p_services ex_other = p_services ex_empty \<and> name ex_other \<noteq> name ex_empty \<and>
   address ex_other \<noteq> address ex_empty \<and>
   AppleTV_eq ex_empty (AppleTVObj ex_other) ex_store \<and>
   identifier ex_both ex_store \<noteq> identifier ex_dmap_only ex_store \<and>
   \<not> AppleTV_eq ex_both (AppleTVObj ex_dmap_only) ex_store"
  using AppleTV_eq_identifier [of ex_empty ex_other ex_store]
    AppleTV_eq_identifier [of ex_both ex_dmap_only ex_store]
  by (simp add: identifier_unfold get_service_def ex_services ex_identifiers
      ex_other_def ex_empty_def AppleTV_init_def)

text \<open>
  C2 as stated fails: two empty configurations with different addresses and names
  both have the identifier \<^verbatim>\<open>None\<close>, and they compare equal.
\<close>

theorem AppleTV_eq_absent_counterexample:
  "identifier ex_empty ex_store = None \<and> identifier ex_other ex_store = None \<and>
   AppleTV_eq ex_empty (AppleTVObj ex_other) ex_store"
  by (simp add: AppleTV_eq_def identifier_def ex_services)

subsection \<open>C3: the main service\<close>

text \<open>
  C3. Without a protocol argument \<^verbatim>\<open>main_service\<close> returns the MRP service if one
  is registered, else the DMAP service if one is registered, and fails with
  \<^verbatim>\<open>NoServiceError\<close> if neither is; the service returned is never an AirPlay service.
  With a protocol argument only that protocol is looked up, and its absence is the
  error.
\<close>

theorem main_service_selects:
  "(get_service self MRP = Some m \<longrightarrow> main_service self None = Inr m) \<and>
   (get_service self MRP = None \<and> get_service self DMAP = Some d \<longrightarrow>
      main_service self None = Inr d) \<and>
   (get_service self MRP = None \<and> get_service self DMAP = None \<longrightarrow>
      main_service self None = Inl NoServiceError) \<and>
   (wf_conf self h \<and> main_service self None = Inr s \<longrightarrow> svc_protocol (h s) \<noteq> AirPlay) \<and>
   (get_service self p = Some t \<longrightarrow> main_service self (Some p) = Inr t) \<and>
   (get_service self p = None \<longrightarrow> main_service self (Some p) = Inl NoServiceError)"
proof -
  have a: "get_service self MRP = Some m \<longrightarrow> main_service self None = Inr m"
    by (simp add: main_service_None)
  have b: "get_service self MRP = None \<and> get_service self DMAP = Some d \<longrightarrow>
      main_service self None = Inr d"
    by (simp add: main_service_None)
  have c: "get_service self MRP = None \<and> get_service self DMAP = None \<longrightarrow>
      main_service self None = Inl NoServiceError"
    by (simp add: main_service_None)
  have d: "svc_protocol (h s) \<noteq> AirPlay" if w: "wf_conf self h" and r: "main_service self None = Inr s"
  proof (cases "get_service self MRP")
    case (Some m)
    with r have "m = s" by (simp add: main_service_None)
    with Some have "get_service self MRP = Some s" by simp
    from wf_get_service [OF w this] show ?thesis by simp
  next
    case None
    with r have "get_service self DMAP = Some s"
      by (simp add: main_service_None split: option.splits)
    from wf_get_service [OF w this] show ?thesis by simp
  qed
  have e: "get_service self p = Some t \<longrightarrow> main_service self (Some p) = Inr t"
    by (simp add: main_service_Some)
  have f: "get_service self p = None \<longrightarrow> main_service self (Some p) = Inl NoServiceError"
    by (simp add: main_service_Some)
  from a b c d e f show ?thesis by blast
qed

theorem main_service_selects_witness:
  "get_service ex_both MRP = Some 10 \<and> main_service ex_both None = Inr 10 \<and>
   wf_conf ex_both ex_store \<and> svc_protocol (ex_store 10) \<noteq> AirPlay \<and>
   get_service ex_dmap_only MRP = None \<and> get_service ex_dmap_only DMAP = Some 11 \<and>
   main_service ex_dmap_only None = Inr 11 \<and>
   main_service ex_dmap_only (Some DMAP) = Inr 11 \<and>
   get_service ex_airplay_only MRP = None \<and> get_service ex_airplay_only DMAP = None \<and>
   main_service ex_airplay_only None = Inl NoServiceError \<and>
   main_service ex_airplay_only (Some DMAP) = Inl NoServiceError"
  using main_service_selects [of ex_both 10 11 ex_store 10 DMAP 11]
    main_service_selects [of ex_dmap_only 10 11 ex_store 11 DMAP 11]
    main_service_selects [of ex_airplay_only 10 11 ex_store 12 DMAP 11]
  by (simp add: get_service_def ex_services ex_wf ex_protocols)

subsection \<open>C4: readiness\<close>

text \<open>
  C4. \<^verbatim>\<open>ready\<close> is true iff a DMAP or an MRP service is registered, that is iff
  \<^verbatim>\<open>get_service\<close> finds one of them; it is false for the empty configuration and for
  a configuration whose only service is AirPlay.
\<close>

theorem ready_iff_main_protocol:
  "(ready self \<longleftrightarrow> DMAP \<in> keys self \<or> MRP \<in> keys self) \<and>
   (ready self \<longleftrightarrow> get_service self MRP \<noteq> None \<or> get_service self DMAP \<noteq> None) \<and>
   \<not> ready (AppleTV_init addr nm) \<and>
   (keys self = {AirPlay} \<longrightarrow> \<not> ready self)"
proof -
  have r: "ready self \<longleftrightarrow> get_service self DMAP \<noteq> None \<or> get_service self MRP \<noteq> None" for self
    by (simp add: ready_def Let_def has_key_get_service)
  have e: "\<not> ready (AppleTV_init addr nm)"
    by (simp add: r get_service_def AppleTV_init_def)
  have k: "keys self = {AirPlay} \<longrightarrow> \<not> ready self"
    by (auto simp: r get_service_def keys_def map_of_eq_None_iff)
  have r': "ready self \<longleftrightarrow> DMAP \<in> keys self \<or> MRP \<in> keys self"
    using get_service_keys [of self] by (simp add: r)
  from r [of self] r' e k show ?thesis by blast
qed

theorem ready_iff_main_protocol_witness:
  "keys ex_airplay_only = {AirPlay} \<and> \<not> ready ex_airplay_only \<and>
   \<not> ready ex_empty \<and> get_service ex_dmap_only DMAP \<noteq> None \<and> ready ex_dmap_only \<and>
   MRP \<in> keys ex_both \<and> ready ex_both"
  using ready_iff_main_protocol [of ex_airplay_only "0x0A000001" "''Living Room''"]
    ready_iff_main_protocol [of ex_dmap_only "0x0A000001" "''Living Room''"]
    ready_iff_main_protocol [of ex_both "0x0A000001" "''Living Room''"]
  by (simp add: keys_def get_service_def ex_services ex_empty_def [symmetric])

subsection \<open>C5: registering a protocol twice\<close>

text \<open>
  C5. After \<^verbatim>\<open>add_service\<close> with a record for \<open>P\<close> followed by \<^verbatim>\<open>add_service\<close>
  with another record for \<open>P\<close>, the configuration holds exactly one record for \<open>P\<close>.
  It is the object that was registered after the first call (the one already there, or
  else the first record), merged into and not replaced, and its properties are the
  union of those it had after the first call and the second record's, the second
  record's value winning on a common key. When no service for \<open>P\<close> was registered
  before, this is the union of the first record's properties and the second's.
\<close>

theorem add_service_twice:
  assumes w: "wf_conf self h"
    and p1: "svc_protocol (h s1) = P" and p2: "svc_protocol (h s2) = P"
    and a1: "add_service self s1 h = (self1, h1)"
    and a2: "add_service self1 s2 h1 = (self2, h2)"
  shows "\<exists>e. get_service self1 P = Some e \<and> get_service self2 P = Some e \<and>
             (case get_service self P of Some existing \<Rightarrow> e = existing | None \<Rightarrow> e = s1) \<and>
             filter (\<lambda>(p, s). p = P) (p_services self2) = [(P, e)] \<and>
             filter (\<lambda>s. svc_protocol (h2 s) = P) (services self2) = [e] \<and>
             svc_properties (h2 e) = svc_properties (h1 e) ++ svc_properties (h1 s2) \<and>
             dom (svc_properties (h2 e)) =
               dom (svc_properties (h1 e)) \<union> dom (svc_properties (h1 s2)) \<and>
             (\<forall>k v. svc_properties (h1 s2) k = Some v \<longrightarrow> svc_properties (h2 e) k = Some v) \<and>
             (\<forall>k. svc_properties (h1 s2) k = None \<longrightarrow>
                  svc_properties (h2 e) k = svc_properties (h1 e) k) \<and>
             (get_service self P = None \<longrightarrow>
                svc_properties (h2 e) = svc_properties (h s1) ++ svc_properties (h s2))"
proof -
  define e where "e = (case get_service self P of Some existing \<Rightarrow> existing | None \<Rightarrow> s1)"
  have g1: "get_service self1 P = Some e"
    using add_service_registers [OF a1] by (simp add: p1 e_def split: option.splits)
  have p2': "svc_protocol (h1 s2) = P"
    by (simp add: add_service_protocol [OF a1] p2)
  have g2: "get_service self2 P = Some e"
    using add_service_registers [OF a2] by (simp add: p2' g1)
  have h2: "h2 = h1(e := merge (h1 e) (h1 s2))"
    using add_service_store [OF a2] by (simp add: p2' g1)
  have w2: "wf_conf self2 h2"
    using wf_add_service [OF wf_add_service [OF w a1] a2] .
  have props: "svc_properties (h2 e) = svc_properties (h1 e) ++ svc_properties (h1 s2)"
    by (simp add: h2 svc_properties_merge)
  have fresh: "svc_properties (h2 e) = svc_properties (h s1) ++ svc_properties (h s2)"
    if n: "get_service self P = None"
  proof -
    from n have "e = s1" by (simp add: e_def)
    moreover from n have "h1 = h"
      using add_service_store [OF a1] by (simp add: p1)
    ultimately show ?thesis using props by simp
  qed
  have orig: "case get_service self P of Some existing \<Rightarrow> e = existing | None \<Rightarrow> e = s1"
    by (simp add: e_def split: option.splits)
  note one = one_record [OF w2 g2]
  from fresh
  have fresh': "get_service self P = None \<longrightarrow>
      svc_properties (h2 e) = svc_properties (h s1) ++ svc_properties (h s2)"
    by (rule impI)
  have union: "dom (svc_properties (h2 e)) =
      dom (svc_properties (h1 e)) \<union> dom (svc_properties (h1 s2))"
    by (simp add: props Un_commute)
  have second: "\<forall>k v. svc_properties (h1 s2) k = Some v \<longrightarrow> svc_properties (h2 e) k = Some v"
    by (simp add: props)
  have first: "\<forall>k. svc_properties (h1 s2) k = None \<longrightarrow>
      svc_properties (h2 e) k = svc_properties (h1 e) k"
    by (simp add: props map_add_def)
  show ?thesis
    by (intro exI [of _ e] conjI) (rule g1 g2 orig one props union second first fresh')+
qed

theorem add_service_twice_witness:
  "wf_conf ex_empty ex_store \<and> svc_protocol (ex_store 10) = MRP \<and>
   svc_protocol (ex_store 14) = MRP \<and>
   add_service ex_empty 10 ex_store = (ex_mrp, ex_store) \<and>
   add_service ex_mrp 14 ex_store = ex_merged \<and>
   get_service ex_empty MRP = None \<and>
   get_service ex_mrp MRP = Some 10 \<and> get_service (fst ex_merged) MRP = Some 10 \<and>
   p_services (fst ex_merged) = [(MRP, 10)] \<and>
   svc_properties (snd ex_merged 10) =
     [''SystemBuildVersion'' \<mapsto> ''18J386''] ++
     [''SystemBuildVersion'' \<mapsto> ''18K5'', ''model'' \<mapsto> ''J305AP''] \<and>
   svc_properties (snd ex_merged 10) ''SystemBuildVersion'' = Some ''18K5'' \<and>
   svc_properties (snd ex_merged 10) ''model'' = Some ''J305AP''"
proof -
  have a2: "add_service ex_mrp 14 ex_store = (fst ex_merged, snd ex_merged)"
    by (simp add: ex_merged_def)
  from add_service_twice [OF ex_wf(1) ex_protocols(1) ex_protocols(5) ex_add_mrp a2]
  obtain e where e: "get_service ex_mrp MRP = Some e" "get_service (fst ex_merged) MRP = Some e"
    and p: "get_service ex_empty MRP = None \<longrightarrow>
        svc_properties (snd ex_merged e) = svc_properties (ex_store 10) ++ svc_properties (ex_store 14)"
    by (elim exE conjE)
  have g: "get_service ex_mrp MRP = Some 10"
    by (simp add: get_service_def ex_services)
  with e have e10: "e = 10" by simp
  have n: "get_service ex_empty MRP = None"
    by (simp add: get_service_def ex_services)
  from p n have props: "svc_properties (snd ex_merged 10) =
      [''SystemBuildVersion'' \<mapsto> ''18J386''] ++
      [''SystemBuildVersion'' \<mapsto> ''18K5'', ''model'' \<mapsto> ''J305AP'']"
    by (simp add: e10 ex_properties)
  have v: "svc_properties (snd ex_merged 10) ''SystemBuildVersion'' = Some ''18K5''"
    "svc_properties (snd ex_merged 10) ''model'' = Some ''J305AP''"
    by (simp_all add: props)
  have s: "p_services (fst ex_merged) = [(MRP, 10)]"
    by (simp add: ex_merged_eq ex_services)
  from e(2) have g2: "get_service (fst ex_merged) MRP = Some 10"
    by (simp add: e10)
  show ?thesis
    by (intro conjI) (rule ex_wf(1) ex_protocols(1) ex_protocols(5) ex_add_mrp
        ex_merged_def [symmetric] n g g2 s props v)+
qed

subsection \<open>C6: setting credentials\<close>

text \<open>
  C6. \<^verbatim>\<open>set_credentials\<close> returns true and sets the credentials of the service when
  a service for the protocol is registered; it returns false, and leaves configuration
  and store as they were, when none is registered. No exception is raised in either
  case.
\<close>

theorem set_credentials_result:
  "(get_service self protocol = Some service \<longrightarrow>
      (\<exists>h'. set_credentials self protocol credentials h = (True, self, h') \<and>
            svc_credentials (h' service) = Some credentials)) \<and>
   (get_service self protocol = None \<longrightarrow>
      set_credentials self protocol credentials h = (False, self, h))"
  by (simp add: set_credentials_Some set_credentials_None)

theorem set_credentials_result_witness:
  "get_service ex_both MRP = Some 10 \<and>
   fst (set_credentials ex_both MRP ''token'' ex_store) \<and>
   svc_credentials (snd (snd (set_credentials ex_both MRP ''token'' ex_store)) 10) = Some ''token'' \<and>
   get_service ex_both AirPlay = None \<and>
   set_credentials ex_both AirPlay ''token'' ex_store = (False, ex_both, ex_store)"
  using set_credentials_result [of ex_both MRP 10 "''token''" ex_store]
    set_credentials_result [of ex_both AirPlay 10 "''token''" ex_store]
  by (auto simp: get_service_def ex_services)

subsection \<open>C7: the operating system\<close>

text \<open>
  C7. \<^verbatim>\<open>device_info.os_type\<close> is TvOS if an MRP service is registered (also when a
  DMAP service is registered too), else Legacy if a DMAP service is registered, else
  Unknown.
\<close>

theorem device_info_os_type:
  "(get_service self MRP \<noteq> None \<longrightarrow> os_type (device_info uu lv lm self h) = TvOS) \<and>
   (get_service self MRP = None \<and> get_service self DMAP \<noteq> None \<longrightarrow>
      os_type (device_info uu lv lm self h) = Legacy) \<and>
   (get_service self MRP = None \<and> get_service self DMAP = None \<longrightarrow>
      os_type (device_info uu lv lm self h) = Unknown)"
  by (simp add: os_type_device_info has_key_get_service)

theorem device_info_os_type_witness:
  "get_service ex_both MRP \<noteq> None \<and> get_service ex_both DMAP \<noteq> None \<and>
   os_type (device_info ex_unicode_upper ex_lookup_version ex_lookup_model ex_both ex_store) = TvOS \<and>
   get_service ex_dmap_only MRP = None \<and> get_service ex_dmap_only DMAP \<noteq> None \<and>
   os_type (device_info ex_unicode_upper ex_lookup_version ex_lookup_model ex_dmap_only ex_store) = Legacy \<and>
   get_service ex_airplay_only MRP = None \<and> get_service ex_airplay_only DMAP = None \<and>
   os_type (device_info ex_unicode_upper ex_lookup_version ex_lookup_model ex_airplay_only ex_store) = Unknown"
  using device_info_os_type [of ex_both ex_unicode_upper ex_lookup_version ex_lookup_model ex_store]
    device_info_os_type [of ex_dmap_only ex_unicode_upper ex_lookup_version ex_lookup_model ex_store]
    device_info_os_type [of ex_airplay_only ex_unicode_upper ex_lookup_version ex_lookup_model ex_store]
  by (simp add: get_service_def ex_services)

subsection \<open>C8: the MAC address\<close>

text \<open>
  C8. \<^verbatim>\<open>device_info.mac\<close> is the value of the combined properties under
  \<^verbatim>\<open>macAddress\<close>, or failing that under \<^verbatim>\<open>deviceid\<close>, in upper case, and absent when
  neither key is present. The combined properties give a key the value of the last
  service, in the order of registration, that has the key. So the MAC address is the
  upper case of \<^verbatim>\<open>macAddress\<close> in the last service that has it; if no service has it,
  the upper case of \<^verbatim>\<open>deviceid\<close> in the last service that has that; and absent if no
  service has either. Upper case of an ASCII value keeps the length, turns each letter
  a to z into the corresponding letter A to Z and keeps every other character. A service
  property \<^verbatim>\<open>macAddress="aa:bb:cc"\<close> that no later service overwrites gives
  \<^verbatim>\<open>"AA:BB:CC"\<close>.
\<close>

theorem device_info_mac:
  "(all_properties self h k = Some w \<longleftrightarrow>
      (\<exists>ys s zs. services self = ys @ s # zs \<and> svc_properties (h s) k = Some w \<and>
                 (\<forall>t\<in>set zs. svc_properties (h t) k = None))) \<and>
   (all_properties self h ''macAddress'' = Some v \<longrightarrow>
      mac (device_info uu lv lm self h) = Some (upper uu v)) \<and>
   (all_properties self h ''macAddress'' = None \<and> all_properties self h ''deviceid'' = Some v \<longrightarrow>
      mac (device_info uu lv lm self h) = Some (upper uu v)) \<and>
   (all_properties self h ''macAddress'' = None \<and> all_properties self h ''deviceid'' = None \<longrightarrow>
      mac (device_info uu lv lm self h) = None) \<and>
   (services self = ys @ s # zs \<and> svc_properties (h s) ''macAddress'' = Some v \<and>
    (\<forall>t\<in>set zs. svc_properties (h t) ''macAddress'' = None) \<longrightarrow>
      mac (device_info uu lv lm self h) = Some (upper uu v)) \<and>
   ((\<forall>t\<in>set (services self). svc_properties (h t) ''macAddress'' = None) \<and>
    services self = ys @ s # zs \<and> svc_properties (h s) ''deviceid'' = Some v \<and>
    (\<forall>t\<in>set zs. svc_properties (h t) ''deviceid'' = None) \<longrightarrow>
      mac (device_info uu lv lm self h) = Some (upper uu v)) \<and>
   ((\<forall>t\<in>set (services self). svc_properties (h t) ''macAddress'' = None \<and>
                               svc_properties (h t) ''deviceid'' = None) \<longrightarrow>
      mac (device_info uu lv lm self h) = None) \<and>
   ((\<forall>c\<in>set v. (of_char c :: nat) < 128) \<longrightarrow>
      length (upper uu v) = length v \<and>
      (\<forall>i<length v.
         (\<forall>n<26. v ! i = ascii_lowercase ! n \<longrightarrow> upper uu v ! i = ascii_uppercase ! n) \<and>
         (v ! i \<notin> set ascii_lowercase \<longrightarrow> upper uu v ! i = v ! i))) \<and>
   (services self = ys @ s # zs \<and> svc_properties (h s) ''macAddress'' = Some ''aa:bb:cc'' \<and>
    (\<forall>t\<in>set zs. svc_properties (h t) ''macAddress'' = None) \<longrightarrow>
      mac (device_info uu lv lm self h) = Some ''AA:BB:CC'')"
proof -
  let ?mac = "mac (device_info uu lv lm self h)"
  have c1: "all_properties self h k = Some w \<longleftrightarrow>
      (\<exists>ys s zs. services self = ys @ s # zs \<and> svc_properties (h s) k = Some w \<and>
                 (\<forall>t\<in>set zs. svc_properties (h t) k = None))"
    by (rule all_properties_Some_iff)
  have c2: "all_properties self h ''macAddress'' = Some v \<longrightarrow> ?mac = Some (upper uu v)" for v
    by (simp add: mac_device_info)
  have c3: "all_properties self h ''macAddress'' = None \<and>
      all_properties self h ''deviceid'' = Some v \<longrightarrow> ?mac = Some (upper uu v)"
    by (simp add: mac_device_info)
  have c4: "all_properties self h ''macAddress'' = None \<and>
      all_properties self h ''deviceid'' = None \<longrightarrow> ?mac = None"
    by (simp add: mac_device_info)
  have last_wins: "all_properties self h key = Some x"
    if "services self = ys @ s # zs" and "svc_properties (h s) key = Some x"
      and "\<forall>t\<in>set zs. svc_properties (h t) key = None" for key x
    using that unfolding all_properties_Some_iff by blast
  have c5: "services self = ys @ s # zs \<and> svc_properties (h s) ''macAddress'' = Some v \<and>
      (\<forall>t\<in>set zs. svc_properties (h t) ''macAddress'' = None) \<longrightarrow> ?mac = Some (upper uu v)" for v
  proof (intro impI, elim conjE)
    assume "services self = ys @ s # zs" and "svc_properties (h s) ''macAddress'' = Some v"
      and "\<forall>t\<in>set zs. svc_properties (h t) ''macAddress'' = None"
    then have "all_properties self h ''macAddress'' = Some v"
      by (rule last_wins)
    with c2 show "?mac = Some (upper uu v)" by blast
  qed
  have c6: "(\<forall>t\<in>set (services self). svc_properties (h t) ''macAddress'' = None) \<and>
      services self = ys @ s # zs \<and> svc_properties (h s) ''deviceid'' = Some v \<and>
      (\<forall>t\<in>set zs. svc_properties (h t) ''deviceid'' = None) \<longrightarrow> ?mac = Some (upper uu v)"
  proof (intro impI, elim conjE)
    assume n: "\<forall>t\<in>set (services self). svc_properties (h t) ''macAddress'' = None"
      and "services self = ys @ s # zs" and "svc_properties (h s) ''deviceid'' = Some v"
      and "\<forall>t\<in>set zs. svc_properties (h t) ''deviceid'' = None"
    then have d: "all_properties self h ''deviceid'' = Some v"
      by (intro last_wins)
    from n have "all_properties self h ''macAddress'' = None"
      by (simp add: all_properties_None_iff)
    with d c3 show "?mac = Some (upper uu v)" by blast
  qed
  have c7: "(\<forall>t\<in>set (services self). svc_properties (h t) ''macAddress'' = None \<and>
      svc_properties (h t) ''deviceid'' = None) \<longrightarrow> ?mac = None"
  proof
    assume n: "\<forall>t\<in>set (services self). svc_properties (h t) ''macAddress'' = None \<and>
      svc_properties (h t) ''deviceid'' = None"
    then have "all_properties self h ''macAddress'' = None"
      and "all_properties self h ''deviceid'' = None"
      by (simp_all add: all_properties_None_iff)
    with c4 show "?mac = None" by blast
  qed
  have c8: "(\<forall>c\<in>set v. (of_char c :: nat) < 128) \<longrightarrow>
      length (upper uu v) = length v \<and>
      (\<forall>i<length v.
         (\<forall>n<26. v ! i = ascii_lowercase ! n \<longrightarrow> upper uu v ! i = ascii_uppercase ! n) \<and>
         (v ! i \<notin> set ascii_lowercase \<longrightarrow> upper uu v ! i = v ! i))"
  proof
    assume "\<forall>c\<in>set v. (of_char c :: nat) < 128"
    then have u: "upper uu v = map to_upper v"
      by (rule upper_ascii)
    show "length (upper uu v) = length v \<and>
      (\<forall>i<length v.
         (\<forall>n<26. v ! i = ascii_lowercase ! n \<longrightarrow> upper uu v ! i = ascii_uppercase ! n) \<and>
         (v ! i \<notin> set ascii_lowercase \<longrightarrow> upper uu v ! i = v ! i))"
      by (simp add: u to_upper_letter to_upper_other)
  qed
  have c9: "services self = ys @ s # zs \<and>
      svc_properties (h s) ''macAddress'' = Some ''aa:bb:cc'' \<and>
      (\<forall>t\<in>set zs. svc_properties (h t) ''macAddress'' = None) \<longrightarrow> ?mac = Some ''AA:BB:CC''"
    using c5 [of "''aa:bb:cc''"] by (simp only: upper_example)
  show ?thesis
    by (intro conjI) (rule c1 c2 c3 c4 c5 c6 c7 c8 c9)+
qed

theorem device_info_mac_witness:
  "services ex_two_macs = [16] @ 12 # [] \<and>
   svc_properties (ex_store 16) ''macAddress'' = Some ''0f:1e:2d'' \<and>
   svc_properties (ex_store 12) ''macAddress'' = Some ''aa:bb:cc'' \<and>
   mac (device_info ex_unicode_upper ex_lookup_version ex_lookup_model ex_two_macs ex_store) =
     Some ''AA:BB:CC'' \<and>
   services ex_dmap_airplay = [11] @ 12 # [] \<and>
   svc_properties (ex_store 11) ''macAddress'' = None \<and>
   mac (device_info ex_unicode_upper ex_lookup_version ex_lookup_model ex_dmap_airplay ex_store) =
     Some ''AA:BB:CC'' \<and>
   services ex_mac_deviceid = [] @ 16 # [15] \<and>
   svc_properties (ex_store 15) ''macAddress'' = None \<and>
   svc_properties (ex_store 15) ''deviceid'' = Some ''a1:b2:c3'' \<and>
   mac (device_info ex_unicode_upper ex_lookup_version ex_lookup_model ex_mac_deviceid ex_store) =
     Some ''0F:1E:2D'' \<and>
   services ex_deviceid = [] @ 15 # [] \<and>
   mac (device_info ex_unicode_upper ex_lookup_version ex_lookup_model ex_deviceid ex_store) =
     Some ''A1:B2:C3'' \<and>
   services ex_both = [10, 11] \<and>
   svc_properties (ex_store 10) ''macAddress'' = None \<and>
   svc_properties (ex_store 10) ''deviceid'' = None \<and>
   svc_properties (ex_store 11) ''deviceid'' = None \<and>
   mac (device_info ex_unicode_upper ex_lookup_version ex_lookup_model ex_both ex_store) = None \<and>
   length (upper ex_unicode_upper ''a1:b2:c3'') = 8"
proof -
  note two = device_info_mac [where self = ex_two_macs and h = ex_store and
      k = "''macAddress''" and w = "''aa:bb:cc''" and v = "''aa:bb:cc''" and
      uu = ex_unicode_upper and lv = ex_lookup_version and lm = ex_lookup_model and
      ys = "[16]" and s = 12 and zs = "[]"]
  note dmap = device_info_mac [where self = ex_dmap_airplay and h = ex_store and
      k = "''macAddress''" and w = "''aa:bb:cc''" and v = "''aa:bb:cc''" and
      uu = ex_unicode_upper and lv = ex_lookup_version and lm = ex_lookup_model and
      ys = "[11]" and s = 12 and zs = "[]"]
  note both = device_info_mac [where self = ex_mac_deviceid and h = ex_store and
      k = "''macAddress''" and w = "''0f:1e:2d''" and v = "''0f:1e:2d''" and
      uu = ex_unicode_upper and lv = ex_lookup_version and lm = ex_lookup_model and
      ys = "[]" and s = 16 and zs = "[15]"]
  note dev = device_info_mac [where self = ex_deviceid and h = ex_store and
      k = "''deviceid''" and w = "''a1:b2:c3''" and v = "''a1:b2:c3''" and
      uu = ex_unicode_upper and lv = ex_lookup_version and lm = ex_lookup_model and
      ys = "[]" and s = 15 and zs = "[]"]
  note none = device_info_mac [where self = ex_both and h = ex_store and
      k = "''macAddress''" and w = "''aa:bb:cc''" and v = "''a1:b2:c3''" and
      uu = ex_unicode_upper and lv = ex_lookup_version and lm = ex_lookup_model and
      ys = "[]" and s = 10 and zs = "[11]"]
  note c5 = conjunct2 [THEN conjunct2, THEN conjunct2, THEN conjunct2, THEN conjunct1]
  note c6 = conjunct2 [THEN conjunct2, THEN conjunct2, THEN conjunct2, THEN conjunct2,
      THEN conjunct1]
  note c7 = conjunct2 [THEN conjunct2, THEN conjunct2, THEN conjunct2, THEN conjunct2,
      THEN conjunct2, THEN conjunct1]
  note c8 = conjunct2 [THEN conjunct2, THEN conjunct2, THEN conjunct2, THEN conjunct2,
      THEN conjunct2, THEN conjunct2, THEN conjunct1]
  note c9 = conjunct2 [THEN conjunct2, THEN conjunct2, THEN conjunct2, THEN conjunct2,
      THEN conjunct2, THEN conjunct2, THEN conjunct2]
  have p: "svc_properties (ex_store 16) ''macAddress'' = Some ''0f:1e:2d''"
    "svc_properties (ex_store 12) ''macAddress'' = Some ''aa:bb:cc''"
    "svc_properties (ex_store 11) ''macAddress'' = None"
    "svc_properties (ex_store 15) ''macAddress'' = None"
    "svc_properties (ex_store 15) ''deviceid'' = Some ''a1:b2:c3''"
    "svc_properties (ex_store 10) ''macAddress'' = None"
    "svc_properties (ex_store 10) ''deviceid'' = None"
    "svc_properties (ex_store 11) ''deviceid'' = None"
    by (simp_all add: ex_properties)
  have n: "\<forall>t\<in>set (services ex_both). svc_properties (ex_store t) ''macAddress'' = None \<and>
      svc_properties (ex_store t) ''deviceid'' = None"
    by (simp add: ex_service_lists ex_properties)
  have a: "\<forall>c\<in>set ''a1:b2:c3''. (of_char c :: nat) < 128"
    by simp
  have m1: "mac (device_info ex_unicode_upper ex_lookup_version ex_lookup_model ex_two_macs
      ex_store) = Some ''AA:BB:CC''"
    using two [THEN c9] by (simp add: ex_service_lists p)
  have m2: "mac (device_info ex_unicode_upper ex_lookup_version ex_lookup_model ex_dmap_airplay
      ex_store) = Some ''AA:BB:CC''"
    using dmap [THEN c9] by (simp add: ex_service_lists p)
  have m3: "mac (device_info ex_unicode_upper ex_lookup_version ex_lookup_model ex_mac_deviceid
      ex_store) = Some ''0F:1E:2D''"
    using both [THEN c5] by (simp add: ex_service_lists p ex_upper)
  have m4: "mac (device_info ex_unicode_upper ex_lookup_version ex_lookup_model ex_deviceid
      ex_store) = Some ''A1:B2:C3''"
    using dev [THEN c6] by (simp add: ex_service_lists p ex_upper)
  have m5: "mac (device_info ex_unicode_upper ex_lookup_version ex_lookup_model ex_both
      ex_store) = None"
    using none [THEN c7] n by blast
  have l: "length (upper ex_unicode_upper ''a1:b2:c3'') = 8"
    using dev [THEN c8] a by simp
  show ?thesis
    by (intro conjI) (rule ex_service_lists p m1 m2 m3 m4 m5 l)+
qed

subsection \<open>C9: no service registered\<close>

text \<open>
  C9. For a configuration with no registered service, and lookup functions that
  return absent on absent input, \<^verbatim>\<open>device_info\<close> has version, build, model and mac
  absent and the operating system Unknown.
\<close>

theorem device_info_no_service:
  assumes "keys self = {}" and "lookup_model None = None" and "lookup_version None = None"
  shows "device_info unicode_upper lookup_version lookup_model self h =
           \<lparr>os_type = Unknown, version = None, build = None, model = None, mac = None\<rparr>"
  using assms
  by (simp add: device_info_def Let_def all_properties_no_service has_key_no_service)

theorem device_info_no_service_witness:
  "keys ex_empty = {} \<and> ex_lookup_model None = None \<and> ex_lookup_version None = None \<and>
   device_info ex_unicode_upper ex_lookup_version ex_lookup_model ex_empty ex_store =
     \<lparr>os_type = Unknown, version = None, build = None, model = None, mac = None\<rparr>"
  using device_info_no_service [of ex_empty ex_lookup_model ex_lookup_version ex_unicode_upper ex_store]
  by (simp add: keys_def ex_services ex_lookup_model_def ex_lookup_version_def)

subsection \<open>C10: what setting credentials leaves alone\<close>

text \<open>
  C10. In a well-formed configuration with a service registered for the protocol,
  \<^verbatim>\<open>set_credentials\<close> changes the credentials field of that service and nothing else:
  the configuration (address, name and the registered protocols) is the same, the
  service keeps its identifier, protocol, port and properties, every other object of
  the store, and so the service of every other protocol, is unchanged, and the
  configuration is still well formed.
\<close>

theorem set_credentials_frame:
  assumes w: "wf_conf self h"
    and g: "get_service self protocol = Some service"
    and r: "set_credentials self protocol credentials h = (b, self', h')"
  shows "self' = self \<and>
         h' service = (h service)\<lparr>svc_credentials := Some credentials\<rparr> \<and>
         svc_identifier (h' service) = svc_identifier (h service) \<and>
         svc_protocol (h' service) = svc_protocol (h service) \<and>
         svc_port (h' service) = svc_port (h service) \<and>
         svc_properties (h' service) = svc_properties (h service) \<and>
         (\<forall>x. x \<noteq> service \<longrightarrow> h' x = h x) \<and>
         (\<forall>q t. q \<noteq> protocol \<and> get_service self' q = Some t \<longrightarrow> h' t = h t) \<and>
         wf_conf self' h'"
proof -
  from r g have s: "self' = self"
    and h: "h' = h(service := (h service)\<lparr>svc_credentials := Some credentials\<rparr>)"
    by (auto simp: set_credentials_Some)
  have o: "h' t = h t" if "q \<noteq> protocol" and "get_service self' q = Some t" for q t
  proof -
    from that have "t \<noteq> service"
      using wf_distinct_refs [OF w g, of q t] by (simp add: s)
    then show ?thesis by (simp add: h)
  qed
  then have others: "\<forall>q t. q \<noteq> protocol \<and> get_service self' q = Some t \<longrightarrow> h' t = h t"
    by blast
  have this_one: "h' service = (h service)\<lparr>svc_credentials := Some credentials\<rparr>"
    by (simp add: h)
  have rest: "\<forall>x. x \<noteq> service \<longrightarrow> h' x = h x"
    by (simp add: h)
  have f: "wf_conf self' h'"
    using wf_set_credentials [OF w r] .
  from others have others': "\<forall>q t. q \<noteq> protocol \<and> get_service self q = Some t \<longrightarrow> h' t = h t"
    by (simp add: s)
  from f have f': "wf_conf self h'"
    by (simp add: s)
  from others' rest f' show ?thesis
    by (simp add: s this_one)
qed

theorem set_credentials_frame_witness:
  "wf_conf ex_both ex_store \<and> get_service ex_both MRP = Some 10 \<and>
   fst (snd (set_credentials ex_both MRP ''token'' ex_store)) = ex_both \<and>
   snd (snd (set_credentials ex_both MRP ''token'' ex_store)) 10 =
     (ex_store 10)\<lparr>svc_credentials := Some ''token''\<rparr> \<and>
   get_service ex_both DMAP = Some 11 \<and>
   snd (snd (set_credentials ex_both MRP ''token'' ex_store)) 11 = ex_store 11"
proof -
  have g: "get_service ex_both MRP = Some 10" and d: "get_service ex_both DMAP = Some 11"
    by (simp_all add: get_service_def ex_services)
  have r: "set_credentials ex_both MRP ''token'' ex_store =
      (fst (set_credentials ex_both MRP ''token'' ex_store),
       fst (snd (set_credentials ex_both MRP ''token'' ex_store)),
       snd (snd (set_credentials ex_both MRP ''token'' ex_store)))"
    by simp
  from set_credentials_frame [OF ex_wf(3) g r] d ex_wf(3) g show ?thesis
    by simp
qed

end
